theory Spec2Isabelle
  imports Main
begin

section \<open>Deployment configuration (stage/config.ts)\<close>

text \<open>
  The stage names of the platform library: the pipeline in
  \<^verbatim>\<open>stateless-stack.ts\<close> instantiates the three of them. At run time a stage
  name is the string of its label (the constructors carry a prefix, \<open>PROD\<close> being
  reserved notation).
\<close>

datatype StageName = Stage_BETA | Stage_GAMMA | Stage_PROD

fun stage_label :: "StageName \<Rightarrow> string" where
  "stage_label Stage_BETA = ''BETA''"
| "stage_label Stage_GAMMA = ''GAMMA''"
| "stage_label Stage_PROD = ''PROD''"

text \<open>
  The three constants that \<^verbatim>\<open>config.ts\<close> imports from the platform library
  (\<^verbatim>\<open>shared-config/event-bridge\<close>, \<^verbatim>\<open>shared-config/networking\<close>). Their values are
  not part of this repository, so they are a parameter; the type of the VPC lookup
  options is left open.
\<close>

record 'vpc shared_config =
  VPC_LOOKUP_PROPS :: 'vpc
  SHARED_SECURITY_GROUP_NAME :: string
  EVENT_BUS_NAME :: string

record 'vpc WruValidatorStackProps =
  lambdaSecurityGroupName :: string
  vpcProps :: 'vpc
  mainBusName :: string
  stage :: string

definition getStackProps :: "'vpc shared_config \<Rightarrow> StageName \<Rightarrow> 'vpc WruValidatorStackProps" where
  "getStackProps c stg =
     \<lparr> lambdaSecurityGroupName = SHARED_SECURITY_GROUP_NAME c,
       vpcProps = VPC_LOOKUP_PROPS c,
       mainBusName = EVENT_BUS_NAME c,
       stage = stage_label stg \<rparr>"

text \<open>The \<^verbatim>\<open>stackConfig\<close> object handed to the deployment pipeline by \<^verbatim>\<open>StatelessStack\<close>.\<close>

record 'vpc stack_config =
  cfg_beta :: "'vpc WruValidatorStackProps"
  cfg_gamma :: "'vpc WruValidatorStackProps"
  cfg_prod :: "'vpc WruValidatorStackProps"

definition stackConfig :: "'vpc shared_config \<Rightarrow> 'vpc stack_config" where
  "stackConfig c =
     \<lparr> cfg_beta = getStackProps c Stage_BETA,
       cfg_gamma = getStackProps c Stage_GAMMA,
       cfg_prod = getStackProps c Stage_PROD \<rparr>"


section \<open>The deployment stack (stage/deployment-stack.ts)\<close>

subsection \<open>Constructs\<close>

text \<open>
  The account, region and partition the stack is deployed to (\<^verbatim>\<open>this.region\<close>,
  \<^verbatim>\<open>this.account\<close>): they are supplied by the deployment, not by the stack's code.
\<close>

record StackEnv =
  partition :: string
  region :: string
  account :: string

datatype Runtime = PYTHON_3_12
datatype Architecture = ARM_64

record IEventBus =
  busId :: string
  eventBusName :: string
  eventBusArn :: string

text \<open>
  \<^verbatim>\<open>EventBus.fromEventBusName\<close> of the CDK library: the imported bus carries the given
  name and the ARN that the stack formats for the resource \<^verbatim>\<open>event-bus/NAME\<close> of the
  service \<^verbatim>\<open>events\<close>.
\<close>

definition formatArn :: "StackEnv \<Rightarrow> string \<Rightarrow> string \<Rightarrow> string \<Rightarrow> string" where
  "formatArn env service resource resourceName =
     ''arn:'' @ partition env @ '':'' @ service @ '':'' @ region env @ '':'' @ account env
       @ '':'' @ resource @ ''/'' @ resourceName"

definition fromEventBusName :: "StackEnv \<Rightarrow> string \<Rightarrow> string \<Rightarrow> IEventBus" where
  "fromEventBusName env id' name =
     \<lparr> busId = id', eventBusName = name,
       eventBusArn = formatArn env ''events'' ''event-bus'' name \<rparr>"

record 'vpc IVpc =
  vpcId :: string
  vpcLookup :: 'vpc

definition fromLookup :: "string \<Rightarrow> 'vpc \<Rightarrow> 'vpc IVpc" where
  "fromLookup id' options = \<lparr> vpcId = id', vpcLookup = options \<rparr>"

record 'vpc ISecurityGroup =
  sgId :: string
  securityGroupName :: string
  sgVpc :: "'vpc IVpc"

definition fromLookupByName :: "string \<Rightarrow> string \<Rightarrow> 'vpc IVpc \<Rightarrow> 'vpc ISecurityGroup" where
  "fromLookupByName id' name v = \<lparr> sgId = id', securityGroupName = name, sgVpc = v \<rparr>"

record PythonLayerVersion =
  layerId :: string
  layerEntry :: string
  compatibleRuntimes :: "Runtime list"
  compatibleArchitectures :: "Architecture list"
  layerDescription :: string

record PolicyStatement =
  actions :: "string list"
  resources :: "string list"

record Role =
  roleId :: string
  assumedBy :: string
  roleDescription :: string
  managedPolicies :: "string list"
  policyStatements :: "PolicyStatement list"

definition addManagedPolicy :: "string \<Rightarrow> Role \<Rightarrow> Role" where
  "addManagedPolicy p r = r\<lparr>managedPolicies := managedPolicies r @ [p]\<rparr>"

definition addToPolicy :: "PolicyStatement \<Rightarrow> Role \<Rightarrow> Role" where
  "addToPolicy st r = r\<lparr>policyStatements := policyStatements r @ [st]\<rparr>"

text \<open>
  The properties that \<^verbatim>\<open>createPythonFunction\<close> receives from its caller and spreads
  last into the function's properties.
\<close>

record functionProps =
  index :: string
  handler :: string
  timeout :: nat  \<comment> \<open>seconds\<close>

text \<open>
  A function holds its role by reference: \<open>role\<close> is the construct id of the role.
  Paths are kept as written, relative to the directory of the source file;
  \<open>vpcSubnetsOf\<close> is the VPC whose private subnets the function is placed in. The
  properties spread last (\<open>index\<close>, \<open>handler\<close>, \<open>timeout\<close>) override none of the others.
\<close>

record 'vpc PythonFunction =
  functionId :: string
  entry :: string
  runtime :: Runtime
  layers :: "PythonLayerVersion list"
  environment :: "(string \<times> string) list"
  securityGroups :: "'vpc ISecurityGroup list"
  vpc :: "'vpc IVpc"
  vpcSubnetsOf :: "'vpc IVpc"
  role :: string
  architecture :: Architecture
  memorySize :: nat
  fnIndex :: string
  fnHandler :: string
  fnTimeout :: nat

subsection \<open>The stack\<close>

text \<open>
  The fields of the class that the constructor assigns, the environment of the
  deployment, and the functions created in the stack (\<open>validatorLambdaRole\<close> is declared
  and never assigned). The constructor is a sequence of assignments to \<open>this\<close>; the
  two methods take the stack and return it updated.
\<close>

record 'vpc WruValidatorStack =
  props :: "'vpc WruValidatorStackProps"
  baseLayer :: PythonLayerVersion
  lambdaEnv :: "(string \<times> string) list"
  lambdaRuntimePythonVersion :: Runtime
  lambdaRole :: Role
  lambdaSG :: "'vpc ISecurityGroup"
  mainBus :: IEventBus
  stackVpc :: "'vpc IVpc"
  stackEnv :: StackEnv
  stackFunctions :: "'vpc PythonFunction list"

definition createPythonFunction ::
  "string \<Rightarrow> functionProps \<Rightarrow> 'vpc WruValidatorStack \<Rightarrow> 'vpc PythonFunction \<times> 'vpc WruValidatorStack" where
  "createPythonFunction name fp this =
     (let fn = \<lparr> functionId = name,
                  entry = ''../../app/'',
                  runtime = lambdaRuntimePythonVersion this,
                  layers = [baseLayer this],
                  environment = lambdaEnv this,
                  securityGroups = [lambdaSG this],
                  vpc = stackVpc this,
                  vpcSubnetsOf = stackVpc this,
                  role = roleId (lambdaRole this),
                  architecture = ARM_64,
                  memorySize = 1024,
                  fnIndex = index fp,
                  fnHandler = handler fp,
                  fnTimeout = timeout fp \<rparr>
      in (fn, this\<lparr>stackFunctions := stackFunctions this @ [fn]\<rparr>))"

text \<open>
  \<^verbatim>\<open>bus.grantPutEventsTo(fn)\<close> of the CDK library: one statement allowing
  \<^verbatim>\<open>events:PutEvents\<close> on the ARN of the bus is added to the policy of the role of
  the function.
\<close>

definition grantPutEventsTo :: "IEventBus \<Rightarrow> 'vpc PythonFunction \<Rightarrow> 'vpc WruValidatorStack \<Rightarrow> 'vpc WruValidatorStack" where
  "grantPutEventsTo bus fn this =
     (if role fn = roleId (lambdaRole this)
      then this\<lparr>lambdaRole :=
             addToPolicy \<lparr> actions = [''events:PutEvents''], resources = [eventBusArn bus] \<rparr>
               (lambdaRole this)\<rparr>
      else this)"

definition createEventBridgeValidator :: "'vpc WruValidatorStack \<Rightarrow> 'vpc WruValidatorStack" where
  "createEventBridgeValidator this =
     (let (procFn, this1) =
            createPythonFunction ''WruDraftValidator''
              \<lparr> index = ''wru_validator/lambda/wru_draft_validator.py'',
                handler = ''lambda_handler'',
                timeout = 28 \<rparr> this
      in grantPutEventsTo (mainBus this1) procFn this1)"

definition schemaRegistryStatement :: "StackEnv \<Rightarrow> PolicyStatement" where
  "schemaRegistryStatement env =
     \<lparr> actions = [''schemas:DescribeSchema'', ''schemas:GetDiscoveredSchema'', ''schemas:ListSchemas''],
       resources =
         [''arn:aws:schemas:'' @ region env @ '':'' @ account env @ '':registry/discovered-schemas'',
          ''arn:aws:schemas:'' @ region env @ '':'' @ account env @ '':schema/discovered-schemas/*''] \<rparr>"

definition WruValidatorStack ::
  "StackEnv \<Rightarrow> string \<Rightarrow> 'vpc WruValidatorStackProps \<Rightarrow> 'vpc WruValidatorStack" where
  "WruValidatorStack env id' p =
     (let bus = fromEventBusName env ''OrcaBusMain'' (mainBusName p);
          v = fromLookup ''MainVpc'' (vpcProps p);
          sg = fromLookupByName ''LambdaSecurityGroup'' (lambdaSecurityGroupName p) v;
          lenv = [(''POWERTOOLS_SERVICE_NAME'', ''wru-validator''),
                  (''POWERTOOLS_LOG_LEVEL'', ''INFO''),
                  (''EVENT_BUS_NAME'', mainBusName p),
                  (''SCHEMA_NAME'', ''orcabus.workflowmanager@WorkflowRunUpdate''),
                  (''SCHEMA_REGISTRY_NAME'', ''orcabus.workflowmanager'')];
          layer = \<lparr> layerId = ''BaseLayer'',
                    layerEntry = ''../../app/'',
                    compatibleRuntimes = [PYTHON_3_12],
                    compatibleArchitectures = [ARM_64],
                    layerDescription = ''Base layer with common dependencies'' \<rparr>;
          r0 = \<lparr> roleId = ''LambdaRole'',
                 assumedBy = ''lambda.amazonaws.com'',
                 roleDescription = ''Lambda execution role for '' @ id',
                 managedPolicies = [],
                 policyStatements = [] \<rparr>;
          r1 = addManagedPolicy ''service-role/AWSLambdaBasicExecutionRole'' r0;
          r2 = addManagedPolicy ''service-role/AWSLambdaVPCAccessExecutionRole'' r1;
          r3 = addManagedPolicy ''AmazonSSMReadOnlyAccess'' r2;
          r4 = addToPolicy (schemaRegistryStatement env) r3;
          r5 = addToPolicy \<lparr> actions = [''events:PutEvents''], resources = [eventBusArn bus] \<rparr> r4;
          this = \<lparr> props = p,
                   baseLayer = layer,
                   lambdaEnv = lenv,
                   lambdaRuntimePythonVersion = PYTHON_3_12,
                   lambdaRole = r5,
                   lambdaSG = sg,
                   mainBus = bus,
                   stackVpc = v,
                   stackEnv = env,
                   stackFunctions = [] \<rparr>
      in createEventBridgeValidator this)"

text \<open>The statements granted to a function: those of the role it refers to.\<close>

definition grantedStatements :: "'vpc WruValidatorStack \<Rightarrow> 'vpc PythonFunction \<Rightarrow> PolicyStatement list" where
  "grantedStatements this fn =
     (if role fn = roleId (lambdaRole this) then policyStatements (lambdaRole this) else [])"


subsection \<open>Reading ARNs, actions and environment variables\<close>

text \<open>Splitting a string at every occurrence of a separator character.\<close>

primrec splitOn :: "char \<Rightarrow> string \<Rightarrow> string list" where
  "splitOn c [] = [[]]"
| "splitOn c (x # xs) =
     (if x = c then [] # splitOn c xs
      else (case splitOn c xs of [] \<Rightarrow> [[x]] | w # ws \<Rightarrow> (x # w) # ws))"

text \<open>
  An ARN is \<^verbatim>\<open>arn:partition:service:region:account:resource\<close>. The registry of a
  schema-registry resource is the second component of \<^verbatim>\<open>registry/NAME\<close> and of
  \<^verbatim>\<open>schema/NAME/SCHEMA\<close>.
\<close>

definition arn_service :: "string \<Rightarrow> string" where
  "arn_service arn = (case splitOn CHR '':'' arn of a # p # s # _ \<Rightarrow> s | _ \<Rightarrow> [])"

definition arn_resource :: "string \<Rightarrow> string option" where
  "arn_resource arn =
     (case splitOn CHR '':'' arn of a # p # s # r # acc # res # _ \<Rightarrow> Some res | _ \<Rightarrow> None)"

definition arn_registry_name :: "string \<Rightarrow> string option" where
  "arn_registry_name arn =
     (case arn_resource arn of
        None \<Rightarrow> None
      | Some res \<Rightarrow> (case splitOn CHR ''/'' res of k # n # _ \<Rightarrow> Some n | _ \<Rightarrow> None))"

definition starts_with :: "string \<Rightarrow> string \<Rightarrow> bool" where
  "starts_with p s = (take (length p) s = p)"

text \<open>The describe, get and list operations of the schema registry service.\<close>

definition read_only_schema_action :: "string \<Rightarrow> bool" where
  "read_only_schema_action a =
     (starts_with ''schemas:Describe'' a \<or> starts_with ''schemas:Get'' a
      \<or> starts_with ''schemas:List'' a)"

text \<open>
  The five options of the configuration surface, and the option that each variable of
  the function's environment sets: the bus, the schema and the registry by their names;
  the two \<^verbatim>\<open>POWERTOOLS_\<close> variables set the service name and the level of the
  logging library, none of the five.
\<close>

datatype config_option = BusName | SchemaName | RegistryName | Strict | TimeoutMs

definition option_of_variable :: "string \<Rightarrow> config_option option" where
  "option_of_variable k =
     (if k = ''EVENT_BUS_NAME'' then Some BusName
      else if k = ''SCHEMA_NAME'' then Some SchemaName
      else if k = ''SCHEMA_REGISTRY_NAME'' then Some RegistryName
      else None)"

definition configured_options :: "(string \<times> string) list \<Rightarrow> config_option list" where
  "configured_options env = List.map_filter option_of_variable (map fst env)"

subsection \<open>A concrete deployment\<close>

definition example_config :: "string shared_config" where
  "example_config =
     \<lparr> VPC_LOOKUP_PROPS = ''main-vpc'',
       SHARED_SECURITY_GROUP_NAME = ''OrcaBusSharedComputeSecurityGroup'',
       EVENT_BUS_NAME = ''OrcaBusMain'' \<rparr>"

definition example_env :: StackEnv where
  "example_env = \<lparr> partition = ''aws'', region = ''ap-southeast-2'', account = ''123456789012'' \<rparr>"

definition example_stack :: "string WruValidatorStack" where
  "example_stack =
     WruValidatorStack example_env ''WruValidatorStack'' (getStackProps example_config Stage_BETA)"



section \<open>The validation-and-relay handler run by the function\<close>

text \<open>
  Modelled from the spec: the handler \<^verbatim>\<open>lambda_handler\<close> of
  \<^verbatim>\<open>app/wru_validator/lambda/wru_draft_validator.py\<close>, which the stack deploys, is not
  among the sources at hand. The definitions of this section follow sections 3, 4 and 7
  of the specification: the data model, the schema resolver, the validator, the event
  emitter, the failure reporter and the handler that composes them. The two
  dependencies (schema registry, event bus) and the reporting channel are parameters;
  a call that times out is a call that returns the dependency's transient reply.
\<close>

subsection \<open>Data model\<close>

record SchemaIdentifier =
  registryName :: string
  schemaName :: string

datatype jvalue =
    JNull
  | JString string
  | JNumber int
  | JBool bool
  | JObject "(string \<times> jvalue) list"
  | JArray "jvalue list"

datatype type_tag = TString | TNumber | TBoolean | TObject | TArray | TEnum "jvalue list"

record FieldSpec =
  fieldName :: string
  required :: bool
  fieldType :: type_tag

type_synonym SchemaDefinition = "FieldSpec list"

type_synonym DraftRecord = "(string \<times> jvalue) list"

datatype presence = PresenceRequired | PresenceForbidden

datatype expectation = ExpectedPresence presence | ExpectedType type_tag

record FieldViolation =
  fieldPath :: string
  expected :: expectation
  actualDescription :: string

datatype ValidationOutcome = Valid DraftRecord | Invalid "FieldViolation list"

record OutboundEvent =
  source :: string
  detailType :: string
  detail :: DraftRecord
  timestamp :: nat

datatype record_status = Emitted | Rejected | TransientFailure

record RecordOutcome =
  outcomeRecordId :: string
  status :: record_status
  outcomeDetail :: string

record InboundRecord =
  recordId :: string
  payload :: DraftRecord

record Config =
  busName :: string
  configSchemaName :: string
  configRegistryName :: string
  strict :: bool
  timeoutMs :: nat

record Diagnostic =
  diagSchema :: SchemaIdentifier
  diagViolations :: "FieldViolation list"
  diagExcerpt :: "string list"

text \<open>
  The state that one process carries: the schema cache, and what the process has done
  to its two output channels, every publish call against the bus and every diagnostic
  delivered.
\<close>

record RuntimeState =
  cache :: "(SchemaIdentifier \<times> SchemaDefinition) option"
  busCalls :: "(string \<times> OutboundEvent) list"
  diagnostics :: "Diagnostic list"

subsection \<open>Dependencies\<close>

datatype registry_reply = Found SchemaDefinition | NoSuchSchema | Unreachable

record Dependencies =
  registry :: "SchemaIdentifier \<Rightarrow> registry_reply"
  busAccepts :: "(string \<times> OutboundEvent) list \<Rightarrow> string \<Rightarrow> OutboundEvent \<Rightarrow> bool"
  channelAccepts :: "Diagnostic \<Rightarrow> bool"

subsection \<open>Schema resolver\<close>

datatype resolve_error = SchemaNotFound | RegistryUnavailable

text \<open>
  Modelled from the spec: \<open>resolve\<close> (section 4.1). The definition resolved last is
  cached under its identifier; a cached identifier is answered without a call, and the
  cache changes only when the registry answers with a definition.
\<close>

definition resolve ::
  "Dependencies \<Rightarrow> SchemaIdentifier \<Rightarrow> RuntimeState \<Rightarrow> (resolve_error + SchemaDefinition) \<times> RuntimeState" where
  "resolve deps ident s =
     (case (case cache s of Some (i, d) \<Rightarrow> (if i = ident then Some d else None) | None \<Rightarrow> None) of
        Some d \<Rightarrow> (Inr d, s)
      | None \<Rightarrow>
          (case registry deps ident of
             Found d \<Rightarrow> (Inr d, s\<lparr>cache := Some (ident, d)\<rparr>)
           | NoSuchSchema \<Rightarrow> (Inl SchemaNotFound, s)
           | Unreachable \<Rightarrow> (Inl RegistryUnavailable, s)))"

subsection \<open>Validator\<close>

text \<open>
  Modelled from the spec: \<open>validate\<close> (section 4.2). Every field of the definition is
  checked, the violations of all fields are collected, and in strict mode every field of
  the record that the definition does not declare is a violation too. The canonical
  record holds the declared fields that are present, in the order of the definition.
\<close>

fun matches :: "type_tag \<Rightarrow> jvalue \<Rightarrow> bool" where
  "matches TString (JString _) = True"
| "matches TNumber (JNumber _) = True"
| "matches TBoolean (JBool _) = True"
| "matches TObject (JObject _) = True"
| "matches TArray (JArray _) = True"
| "matches (TEnum vs) v = (v \<in> set vs)"
| "matches _ _ = False"

fun describe :: "jvalue \<Rightarrow> string" where
  "describe JNull = ''null''"
| "describe (JString _) = ''string''"
| "describe (JNumber _) = ''number''"
| "describe (JBool _) = ''boolean''"
| "describe (JObject _) = ''object''"
| "describe (JArray _) = ''array''"

definition check_field :: "DraftRecord \<Rightarrow> FieldSpec \<Rightarrow> FieldViolation list" where
  "check_field rec f =
     (case map_of rec (fieldName f) of
        None \<Rightarrow>
          (if required f
           then [\<lparr> fieldPath = fieldName f, expected = ExpectedPresence PresenceRequired,
                   actualDescription = ''missing'' \<rparr>]
           else [])
      | Some v \<Rightarrow>
          (if matches (fieldType f) v then []
           else [\<lparr> fieldPath = fieldName f, expected = ExpectedType (fieldType f),
                   actualDescription = describe v \<rparr>]))"

definition unrecognized :: "SchemaDefinition \<Rightarrow> DraftRecord \<Rightarrow> FieldViolation list" where
  "unrecognized def rec =
     map (\<lambda>k. \<lparr> fieldPath = k, expected = ExpectedPresence PresenceForbidden,
                 actualDescription = ''present'' \<rparr>)
       (filter (\<lambda>k. k \<notin> set (map fieldName def)) (map fst rec))"

definition canonical :: "SchemaDefinition \<Rightarrow> DraftRecord \<Rightarrow> DraftRecord" where
  "canonical def rec =
     List.map_filter (\<lambda>f. map_option (\<lambda>v. (fieldName f, v)) (map_of rec (fieldName f))) def"

definition validate :: "SchemaDefinition \<Rightarrow> bool \<Rightarrow> DraftRecord \<Rightarrow> ValidationOutcome" where
  "validate def strictMode rec =
     (let vs = concat (map (check_field rec) def)
               @ (if strictMode then unrecognized def rec else [])
      in if vs = [] then Valid (canonical def rec) else Invalid vs)"

subsection \<open>Event emitter and failure reporter\<close>

text \<open>
  Modelled from the spec: \<open>emit\<close> (section 4.3) and \<open>report\<close> (section 4.4). A
  publish call is recorded in \<open>busCalls\<close> whether the bus accepts it or not; a
  diagnostic that the channel refuses is dropped and nothing is raised.
\<close>

definition relaySource :: string where
  "relaySource = ''wru-validator''"

definition emit ::
  "Dependencies \<Rightarrow> Config \<Rightarrow> nat \<Rightarrow> DraftRecord \<Rightarrow> RuntimeState \<Rightarrow> record_status \<times> RuntimeState" where
  "emit deps cfg now canon s =
     (let ev = \<lparr> source = relaySource, detailType = configSchemaName cfg, detail = canon,
                 timestamp = now \<rparr>
      in (if busAccepts deps (busCalls s) (busName cfg) ev then Emitted else TransientFailure,
          s\<lparr>busCalls := busCalls s @ [(busName cfg, ev)]\<rparr>))"

definition excerptLimit :: nat where
  "excerptLimit = 16"

definition report ::
  "Dependencies \<Rightarrow> SchemaIdentifier \<Rightarrow> DraftRecord \<Rightarrow> FieldViolation list \<Rightarrow> RuntimeState \<Rightarrow> RuntimeState" where
  "report deps ident rec vs s =
     (let d = \<lparr> diagSchema = ident, diagViolations = vs,
                diagExcerpt = take excerptLimit (map fst rec) \<rparr>
      in if channelAccepts deps d then s\<lparr>diagnostics := diagnostics s @ [d]\<rparr> else s)"

subsection \<open>Handler\<close>

text \<open>
  Modelled from the spec: the handler (sections 4.5 and 7). Per record: resolving, then
  validating, then emitting a valid record or reporting an invalid one. A registry that
  is unavailable gives \<open>TransientFailure\<close>; a schema that does not exist is permanent and
  gives \<open>Rejected\<close>, as a validation failure does. The records of a batch are handled in
  order, each from the state its predecessor left.
\<close>

definition schemaIdentifier :: "Config \<Rightarrow> SchemaIdentifier" where
  "schemaIdentifier cfg = \<lparr> registryName = configRegistryName cfg, schemaName = configSchemaName cfg \<rparr>"

definition outcome :: "InboundRecord \<Rightarrow> record_status \<Rightarrow> string \<Rightarrow> RecordOutcome" where
  "outcome r st d = \<lparr> outcomeRecordId = recordId r, status = st, outcomeDetail = d \<rparr>"

definition handle_record ::
  "Dependencies \<Rightarrow> Config \<Rightarrow> nat \<Rightarrow> InboundRecord \<Rightarrow> RuntimeState \<Rightarrow> RecordOutcome \<times> RuntimeState" where
  "handle_record deps cfg now r s =
     (case resolve deps (schemaIdentifier cfg) s of
        (Inl RegistryUnavailable, s1) \<Rightarrow> (outcome r TransientFailure ''RegistryUnavailable'', s1)
      | (Inl SchemaNotFound, s1) \<Rightarrow> (outcome r Rejected ''SchemaNotFound'', s1)
      | (Inr d, s1) \<Rightarrow>
          (case validate d (strict cfg) (payload r) of
             Valid canon \<Rightarrow>
               (case emit deps cfg now canon s1 of
                  (Emitted, s2) \<Rightarrow> (outcome r Emitted ''emitted'', s2)
                | (st, s2) \<Rightarrow> (outcome r TransientFailure ''BusUnavailable'', s2))
           | Invalid vs \<Rightarrow>
               (outcome r Rejected ''ValidationFailed'',
                report deps (schemaIdentifier cfg) (payload r) vs s1)))"

fun lambda_handler ::
  "Dependencies \<Rightarrow> Config \<Rightarrow> nat \<Rightarrow> InboundRecord list \<Rightarrow> RuntimeState \<Rightarrow> RecordOutcome list \<times> RuntimeState" where
  "lambda_handler deps cfg now [] s = ([], s)"
| "lambda_handler deps cfg now (r # rs) s =
     (let (out, s1) = handle_record deps cfg now r s;
          (outs, s2) = lambda_handler deps cfg now rs s1
      in (out # outs, s2))"

text \<open>The offending fields of a record: a required field that is missing, a present field of the wrong type.\<close>

definition missing_required :: "DraftRecord \<Rightarrow> FieldSpec \<Rightarrow> bool" where
  "missing_required rec f = (required f \<and> map_of rec (fieldName f) = None)"

definition type_mismatch :: "DraftRecord \<Rightarrow> FieldSpec \<Rightarrow> bool" where
  "type_mismatch rec f =
     (case map_of rec (fieldName f) of None \<Rightarrow> False | Some v \<Rightarrow> \<not> matches (fieldType f) v)"

subsection \<open>The example of the specification\<close>

definition wru_schema :: SchemaDefinition where
  "wru_schema =
     [\<lparr> fieldName = ''workflowRunId'', required = True, fieldType = TString \<rparr>,
      \<lparr> fieldName = ''status'', required = True,
        fieldType = TEnum [JString ''DRAFT'', JString ''QUEUED'', JString ''RUNNING'',
                           JString ''SUCCEEDED'', JString ''FAILED''] \<rparr>]"

definition example_cfg :: Config where
  "example_cfg =
     \<lparr> busName = ''OrcaBusMain'',
       configSchemaName = ''orcabus.workflowmanager@WorkflowRunUpdate'',
       configRegistryName = ''orcabus.workflowmanager'',
       strict = False,
       timeoutMs = 5000 \<rparr>"

definition example_state :: RuntimeState where
  "example_state = \<lparr> cache = None, busCalls = [], diagnostics = [] \<rparr>"

definition deps_up :: Dependencies where
  "deps_up = \<lparr> registry = (\<lambda>i. Found wru_schema), busAccepts = (\<lambda>h b e. True),
               channelAccepts = (\<lambda>d. True) \<rparr>"

definition deps_down :: Dependencies where
  "deps_down = \<lparr> registry = (\<lambda>i. Unreachable), busAccepts = (\<lambda>h b e. False),
                 channelAccepts = (\<lambda>d. False) \<rparr>"

definition good_record :: InboundRecord where
  "good_record =
     \<lparr> recordId = ''r1'',
       payload = [(''workflowRunId'', JString ''wru.123''), (''status'', JString ''RUNNING'')] \<rparr>"

definition bad_record :: InboundRecord where
  "bad_record = \<lparr> recordId = ''r2'', payload = [(''status'', JString ''CANCELLED'')] \<rparr>"

definition example_batch :: "InboundRecord list" where
  "example_batch = [good_record, bad_record, good_record\<lparr>recordId := ''r3''\<rparr>]"



section \<open>Properties of the deployment\<close>

subsection \<open>What the constructor builds\<close>

lemmas stack_defs = WruValidatorStack_def createEventBridgeValidator_def createPythonFunction_def
  grantPutEventsTo_def addToPolicy_def addManagedPolicy_def fromEventBusName_def fromLookup_def
  fromLookupByName_def

lemma stack_policyStatements:
  "policyStatements (lambdaRole (WruValidatorStack env id' p)) =
     [schemaRegistryStatement env,
      \<lparr> actions = [''events:PutEvents''],
        resources = [formatArn env ''events'' ''event-bus'' (mainBusName p)] \<rparr>,
      \<lparr> actions = [''events:PutEvents''],
        resources = [formatArn env ''events'' ''event-bus'' (mainBusName p)] \<rparr>]"
  by (simp add: stack_defs Let_def)

lemma stack_lambdaEnv:
  "lambdaEnv (WruValidatorStack env id' p) =
     [(''POWERTOOLS_SERVICE_NAME'', ''wru-validator''),
      (''POWERTOOLS_LOG_LEVEL'', ''INFO''),
      (''EVENT_BUS_NAME'', mainBusName p),
      (''SCHEMA_NAME'', ''orcabus.workflowmanager@WorkflowRunUpdate''),
      (''SCHEMA_REGISTRY_NAME'', ''orcabus.workflowmanager'')]"
  by (simp add: stack_defs Let_def)

lemma stack_functions:
  "\<exists>f. stackFunctions (WruValidatorStack env id' p) = [f]
       \<and> environment f = lambdaEnv (WruValidatorStack env id' p)
       \<and> role f = ''LambdaRole''
       \<and> functionId f = ''WruDraftValidator''
       \<and> fnIndex f = ''wru_validator/lambda/wru_draft_validator.py''
       \<and> fnHandler f = ''lambda_handler''
       \<and> fnTimeout f = 28"
  by (simp add: stack_defs Let_def)

lemma stack_roleId: "roleId (lambdaRole (WruValidatorStack env id' p)) = ''LambdaRole''"
  by (simp add: stack_defs Let_def)

lemma example_stack_statements:
  "policyStatements (lambdaRole example_stack) =
     [\<lparr> actions = [''schemas:DescribeSchema'', ''schemas:GetDiscoveredSchema'', ''schemas:ListSchemas''],
        resources = [''arn:aws:schemas:ap-southeast-2:123456789012:registry/discovered-schemas'',
                     ''arn:aws:schemas:ap-southeast-2:123456789012:schema/discovered-schemas/*''] \<rparr>,
      \<lparr> actions = [''events:PutEvents''],
        resources = [''arn:aws:events:ap-southeast-2:123456789012:event-bus/OrcaBusMain''] \<rparr>,
      \<lparr> actions = [''events:PutEvents''],
        resources = [''arn:aws:events:ap-southeast-2:123456789012:event-bus/OrcaBusMain''] \<rparr>]"
  by (simp add: example_stack_def stack_policyStatements schemaRegistryStatement_def formatArn_def
        example_env_def example_config_def getStackProps_def)

lemma example_stack_lambdaEnv:
  "lambdaEnv example_stack =
     [(''POWERTOOLS_SERVICE_NAME'', ''wru-validator''),
      (''POWERTOOLS_LOG_LEVEL'', ''INFO''),
      (''EVENT_BUS_NAME'', ''OrcaBusMain''),
      (''SCHEMA_NAME'', ''orcabus.workflowmanager@WorkflowRunUpdate''),
      (''SCHEMA_REGISTRY_NAME'', ''orcabus.workflowmanager'')]"
  by (simp add: example_stack_def stack_lambdaEnv getStackProps_def example_config_def)

subsection \<open>ARNs\<close>

lemma splitOn_prefix: "c \<notin> set p \<Longrightarrow> splitOn c (p @ c # rest) = p # splitOn c rest"
  by (induction p) auto

lemma schema_arn_service:
  "r \<in> set (resources (schemaRegistryStatement env)) \<Longrightarrow> arn_service r = ''schemas''"
  by (auto simp add: schemaRegistryStatement_def arn_service_def split: list.splits)

lemma bus_arn_service:
  "CHR '':'' \<notin> set (partition env) \<Longrightarrow>
     arn_service (formatArn env ''events'' ''event-bus'' n) = ''events''"
  using splitOn_prefix[of "CHR '':''" "partition env"
      "''events:'' @ region env @ '':'' @ account env @ '':'' @ ''event-bus'' @ ''/'' @ n"]
  by (simp add: formatArn_def arn_service_def split: list.splits)

lemma formatArn_inject: "formatArn env s r n = formatArn env s r m \<Longrightarrow> n = m"
  by (simp add: formatArn_def)

lemma read_only_schema_actions:
  "a \<in> set (actions (schemaRegistryStatement env)) \<Longrightarrow> read_only_schema_action a"
  by (auto simp add: schemaRegistryStatement_def read_only_schema_action_def starts_with_def)

subsection \<open>Stage configuration\<close>

text \<open>
  C9: the stage given to \<open>getStackProps\<close> determines the \<open>stage\<close> field and nothing
  else. The properties of two stages are equal up to that field; the VPC lookup
  options, the security group name and the bus name are the three shared constants at
  every stage, and so are they in the three entries of the pipeline's \<open>stackConfig\<close>.
\<close>

theorem getStackProps_stage_only:
  "getStackProps c s1 = (getStackProps c s2)\<lparr>stage := stage_label s1\<rparr>
   \<and> vpcProps (getStackProps c s1) = VPC_LOOKUP_PROPS c
   \<and> lambdaSecurityGroupName (getStackProps c s1) = SHARED_SECURITY_GROUP_NAME c
   \<and> mainBusName (getStackProps c s1) = EVENT_BUS_NAME c
   \<and> stage (getStackProps c s1) = stage_label s1
   \<and> cfg_gamma (stackConfig c) = (cfg_beta (stackConfig c))\<lparr>stage := ''GAMMA''\<rparr>
   \<and> cfg_prod (stackConfig c) = (cfg_beta (stackConfig c))\<lparr>stage := ''PROD''\<rparr>"
  by (simp add: getStackProps_def stackConfig_def)

subsection \<open>The function and its environment\<close>

text \<open>
  C8: every instance of the stack holds exactly one function, the one with the id
  \<open>WruDraftValidator\<close>, whose code is \<open>lambda_handler\<close> of
  \<open>wru_validator/lambda/wru_draft_validator.py\<close>.
\<close>

theorem one_validator_function:
  "length (stackFunctions (WruValidatorStack env id' p)) = 1
   \<and> map (\<lambda>f. (functionId f, fnIndex f, fnHandler f)) (stackFunctions (WruValidatorStack env id' p)) =
       [(''WruDraftValidator'', ''wru_validator/lambda/wru_draft_validator.py'', ''lambda_handler'')]"
  by (simp add: stack_defs Let_def)

text \<open>
  C10: the bus that the function is told to emit to is the bus it may emit to. The
  variable \<open>EVENT_BUS_NAME\<close> of the function's environment is \<open>mainBusName\<close> of the
  properties; the statements granted to the function are those of the stack's role, and
  each statement of that role allowing \<open>events:PutEvents\<close> names one resource, the ARN of
  the bus imported under \<open>mainBusName\<close>.
\<close>

theorem emit_bus_is_permitted_bus:
  "map (\<lambda>f. map_of (environment f) ''EVENT_BUS_NAME'') (stackFunctions (WruValidatorStack env id' p)) =
       [Some (mainBusName p)]
   \<and> map (grantedStatements (WruValidatorStack env id' p)) (stackFunctions (WruValidatorStack env id' p)) =
       [policyStatements (lambdaRole (WruValidatorStack env id' p))]
   \<and> map resources [st \<leftarrow> policyStatements (lambdaRole (WruValidatorStack env id' p)).
                       ''events:PutEvents'' \<in> set (actions st)] =
       [[eventBusArn (fromEventBusName env ''OrcaBusMain'' (mainBusName p))],
        [eventBusArn (fromEventBusName env ''OrcaBusMain'' (mainBusName p))]]"
proof -
  obtain f where f: "stackFunctions (WruValidatorStack env id' p) = [f]"
      "environment f = lambdaEnv (WruValidatorStack env id' p)" "role f = ''LambdaRole''"
    using stack_functions[of env id' p] by blast
  show ?thesis
    by (simp add: f stack_lambdaEnv stack_policyStatements grantedStatements_def stack_roleId
          schemaRegistryStatement_def fromEventBusName_def)
qed

text \<open>
  At the BETA stage the environment of the function sets neither the strictness flag
  nor the timeout budget: the statement that all five options are set fails there.
\<close>

theorem strict_and_timeout_not_configured:
  "map fst (environment (hd (stackFunctions example_stack))) =
       [''POWERTOOLS_SERVICE_NAME'', ''POWERTOOLS_LOG_LEVEL'', ''EVENT_BUS_NAME'', ''SCHEMA_NAME'',
        ''SCHEMA_REGISTRY_NAME'']
   \<and> Strict \<notin> set (configured_options (environment (hd (stackFunctions example_stack))))
   \<and> TimeoutMs \<notin> set (configured_options (environment (hd (stackFunctions example_stack))))"
  by (simp add: example_stack_def stack_defs Let_def configured_options_def List.map_filter_def
        option_of_variable_def)

text \<open>
  C4, as the code has it: whatever the properties, the environment of the function
  holds five variables, \<open>POWERTOOLS_SERVICE_NAME\<close>, \<open>POWERTOOLS_LOG_LEVEL\<close>,
  \<open>EVENT_BUS_NAME\<close>, \<open>SCHEMA_NAME\<close> and \<open>SCHEMA_REGISTRY_NAME\<close>, and they set three of the
  five options: the bus name, the schema name and the registry name. The one time
  limit of the deployment is the function's own timeout of 28 seconds.
\<close>

theorem environment_configures_three_options:
  "map (\<lambda>f. map fst (environment f)) (stackFunctions (WruValidatorStack env id' p)) =
       [[''POWERTOOLS_SERVICE_NAME'', ''POWERTOOLS_LOG_LEVEL'', ''EVENT_BUS_NAME'', ''SCHEMA_NAME'',
         ''SCHEMA_REGISTRY_NAME'']]
   \<and> map (\<lambda>f. configured_options (environment f)) (stackFunctions (WruValidatorStack env id' p)) =
       [[BusName, SchemaName, RegistryName]]
   \<and> map fnTimeout (stackFunctions (WruValidatorStack env id' p)) = [28]"
  by (simp add: stack_defs Let_def configured_options_def List.map_filter_def option_of_variable_def)

subsection \<open>Permissions\<close>

text \<open>
  C5: the role's access to the schema registry is read-only. In every statement of the
  role's policy, an action of a statement that names a resource of the \<open>schemas\<close>
  service, and any action of that service wherever it stands, is a describe, get or list
  operation. The partition of the deployment is taken to be free of colons, as
  partition names are.
\<close>

theorem schema_registry_access_read_only:
  assumes "CHR '':'' \<notin> set (partition env)"
  shows "\<forall>st \<in> set (policyStatements (lambdaRole (WruValidatorStack env id' p))).
           \<forall>a \<in> set (actions st).
             (\<exists>r \<in> set (resources st). arn_service r = ''schemas'') \<or> starts_with ''schemas:'' a
               \<longrightarrow> read_only_schema_action a"
proof (intro ballI impI)
  fix st a
  assume st: "st \<in> set (policyStatements (lambdaRole (WruValidatorStack env id' p)))"
    and a: "a \<in> set (actions st)"
    and h: "(\<exists>r \<in> set (resources st). arn_service r = ''schemas'') \<or> starts_with ''schemas:'' a"
  from st consider (schema) "st = schemaRegistryStatement env"
    | (events) "st = \<lparr> actions = [''events:PutEvents''],
                       resources = [formatArn env ''events'' ''event-bus'' (mainBusName p)] \<rparr>"
    by (auto simp add: stack_policyStatements)
  then show "read_only_schema_action a"
  proof cases
    case schema
    with a show ?thesis by (simp add: read_only_schema_actions)
  next
    case events
    with a have "a = ''events:PutEvents''" by simp
    moreover have "arn_service (formatArn env ''events'' ''event-bus'' (mainBusName p)) = ''events''"
      using assms by (rule bus_arn_service)
    ultimately show ?thesis using h events by (simp add: starts_with_def)
  qed
qed

text \<open>
  In the example deployment the first statement of the role names a registry resource
  and allows \<open>schemas:GetDiscoveredSchema\<close>, a get operation.
\<close>

theorem schema_registry_access_read_only_witness:
  "CHR '':'' \<notin> set (partition example_env)
   \<and> arn_service ''arn:aws:schemas:ap-southeast-2:123456789012:registry/discovered-schemas'' = ''schemas''
   \<and> read_only_schema_action ''schemas:GetDiscoveredSchema''"
proof -
  have p: "CHR '':'' \<notin> set (partition example_env)"
    by (simp add: example_env_def)
  have s: "arn_service ''arn:aws:schemas:ap-southeast-2:123456789012:registry/discovered-schemas'' = ''schemas''"
    by (simp add: arn_service_def)
  let ?st = "\<lparr> actions = [''schemas:DescribeSchema'', ''schemas:GetDiscoveredSchema'', ''schemas:ListSchemas''],
        resources = [''arn:aws:schemas:ap-southeast-2:123456789012:registry/discovered-schemas'',
                     ''arn:aws:schemas:ap-southeast-2:123456789012:schema/discovered-schemas/*''] \<rparr>"
  have m: "?st \<in> set (policyStatements (lambdaRole example_stack))"
    by (simp add: example_stack_statements)
  have "read_only_schema_action ''schemas:GetDiscoveredSchema''"
    using schema_registry_access_read_only[OF p, of "''WruValidatorStack''"
        "getStackProps example_config Stage_BETA"] m s
    unfolding example_stack_def[symmetric]
    by auto
  with p s show ?thesis by simp
qed

text \<open>
  C6: the one operation on event buses that the function is granted is
  \<open>events:PutEvents\<close>, on the main bus alone. In every statement granted to a function
  of the stack, an action of the \<open>events\<close> service, and any action of a statement that
  names a resource of that service, is \<open>events:PutEvents\<close>; the statement's resources
  are the ARN of the bus imported under \<open>mainBusName\<close> and nothing else, so the ARN of
  a bus of any other name is not among them.
\<close>

theorem put_events_only_on_main_bus:
  "\<forall>f \<in> set (stackFunctions (WruValidatorStack env id' p)).
     \<forall>st \<in> set (grantedStatements (WruValidatorStack env id' p) f).
       \<forall>a \<in> set (actions st).
         starts_with ''events:'' a \<or> (\<exists>r \<in> set (resources st). arn_service r = ''events'')
           \<longrightarrow> a = ''events:PutEvents''
               \<and> resources st = [eventBusArn (fromEventBusName env ''OrcaBusMain'' (mainBusName p))]
               \<and> (\<forall>i n. n \<noteq> mainBusName p
                      \<longrightarrow> eventBusArn (fromEventBusName env i n) \<notin> set (resources st))"
proof (intro ballI impI)
  fix f st a
  assume f: "f \<in> set (stackFunctions (WruValidatorStack env id' p))"
    and st: "st \<in> set (grantedStatements (WruValidatorStack env id' p) f)"
    and a: "a \<in> set (actions st)"
    and h: "starts_with ''events:'' a \<or> (\<exists>r \<in> set (resources st). arn_service r = ''events'')"
  from st have "st \<in> set (policyStatements (lambdaRole (WruValidatorStack env id' p)))"
    by (simp add: grantedStatements_def split: if_splits)
  then consider (schema) "st = schemaRegistryStatement env"
    | (events) "st = \<lparr> actions = [''events:PutEvents''],
                       resources = [formatArn env ''events'' ''event-bus'' (mainBusName p)] \<rparr>"
    by (auto simp add: stack_policyStatements)
  then show "a = ''events:PutEvents''
               \<and> resources st = [eventBusArn (fromEventBusName env ''OrcaBusMain'' (mainBusName p))]
               \<and> (\<forall>i n. n \<noteq> mainBusName p
                      \<longrightarrow> eventBusArn (fromEventBusName env i n) \<notin> set (resources st))"
  proof cases
    case schema
    have "\<not> starts_with ''events:'' a"
      using a schema by (auto simp add: schemaRegistryStatement_def starts_with_def)
    moreover have "\<not> (\<exists>r \<in> set (resources st). arn_service r = ''events'')"
      using schema schema_arn_service[of _ env] by auto
    ultimately show ?thesis using h by blast
  next
    case events
    then show ?thesis using a
      by (auto simp add: fromEventBusName_def dest: formatArn_inject)
  qed
qed

text \<open>
  In the example deployment the second statement of the role allows
  \<open>events:PutEvents\<close> on the ARN of \<open>OrcaBusMain\<close>, and not on that of another bus.
\<close>

theorem put_events_only_on_main_bus_witness:
  "starts_with ''events:'' ''events:PutEvents''
   \<and> resources (policyStatements (lambdaRole example_stack) ! 1) =
       [''arn:aws:events:ap-southeast-2:123456789012:event-bus/OrcaBusMain'']
   \<and> ''arn:aws:events:ap-southeast-2:123456789012:event-bus/OtherBus''
       \<notin> set (resources (policyStatements (lambdaRole example_stack) ! 1))"
proof -
  let ?st = "policyStatements (lambdaRole example_stack) ! 1"
  obtain f where f: "stackFunctions example_stack = [f]" "role f = ''LambdaRole''"
    unfolding example_stack_def using stack_functions by blast
  have m: "f \<in> set (stackFunctions example_stack)"
    by (simp add: f)
  have g: "?st \<in> set (grantedStatements example_stack f)"
    by (simp add: grantedStatements_def f example_stack_statements)
       (simp add: example_stack_def stack_roleId)
  have a: "''events:PutEvents'' \<in> set (actions ?st)"
    by (simp add: example_stack_statements)
  have h: "starts_with ''events:'' ''events:PutEvents''"
    by (simp add: starts_with_def)
  have n: "''OtherBus'' \<noteq> mainBusName (getStackProps example_config Stage_BETA)"
    by (simp add: getStackProps_def example_config_def)
  from put_events_only_on_main_bus[of example_env "''WruValidatorStack''"
      "getStackProps example_config Stage_BETA", folded example_stack_def] m g a h n
  have "resources ?st = [eventBusArn (fromEventBusName example_env ''OrcaBusMain''
            (mainBusName (getStackProps example_config Stage_BETA)))]
      \<and> eventBusArn (fromEventBusName example_env ''X'' ''OtherBus'') \<notin> set (resources ?st)"
    by blast
  then show ?thesis using h
    by (simp add: fromEventBusName_def formatArn_def example_env_def getStackProps_def
          example_config_def)
qed

text \<open>
  C7: the registry that the function is configured to use should be the registry that
  the role may read. In the example deployment it is not: the environment names the
  registry \<open>orcabus.workflowmanager\<close>, while both resources of the statement that allows
  the schema-registry actions belong to the registry \<open>discovered-schemas\<close>, and no other
  statement allows an action of the schema registry.
\<close>

theorem registry_name_mismatch:
  "map (\<lambda>f. map_of (environment f) ''SCHEMA_REGISTRY_NAME'') (stackFunctions example_stack) =
       [Some ''orcabus.workflowmanager'']
   \<and> map arn_registry_name (resources (hd (policyStatements (lambdaRole example_stack)))) =
       [Some ''discovered-schemas'', Some ''discovered-schemas'']
   \<and> map actions (policyStatements (lambdaRole example_stack)) =
       [[''schemas:DescribeSchema'', ''schemas:GetDiscoveredSchema'', ''schemas:ListSchemas''],
        [''events:PutEvents''], [''events:PutEvents'']]"
proof -
  obtain f where f: "stackFunctions example_stack = [f]"
      "environment f = lambdaEnv example_stack"
    unfolding example_stack_def using stack_functions by blast
  show ?thesis
    by (simp add: f example_stack_lambdaEnv example_stack_statements arn_registry_name_def
          arn_resource_def)
qed



section \<open>Properties of the handler\<close>

subsection \<open>The validator collects every violation\<close>

lemma check_field_missing:
  "missing_required rec f \<Longrightarrow>
     check_field rec f = [\<lparr> fieldPath = fieldName f, expected = ExpectedPresence PresenceRequired,
                             actualDescription = ''missing'' \<rparr>]"
  by (simp add: missing_required_def check_field_def)

lemma check_field_mismatch:
  "type_mismatch rec f \<Longrightarrow>
     \<exists>d. check_field rec f = [\<lparr> fieldPath = fieldName f, expected = ExpectedType (fieldType f),
                                  actualDescription = d \<rparr>]"
  by (auto simp add: type_mismatch_def check_field_def split: option.splits)

lemma check_field_offending:
  "missing_required rec f \<or> type_mismatch rec f \<Longrightarrow> length (check_field rec f) = 1"
  using check_field_missing[of rec f] check_field_mismatch[of rec f] by auto

lemma offending_count:
  "length (filter (\<lambda>f. missing_required rec f \<or> type_mismatch rec f) def)
     \<le> length (concat (map (check_field rec) def))"
proof (induction "def")
  case Nil
  then show ?case by simp
next
  case (Cons f fs)
  then show ?case using check_field_offending[of rec f] by auto
qed

text \<open>
  C2: for a definition and a record with at least one offending field (a required field
  that is missing, or a present field whose value has the wrong type), \<open>validate\<close>
  returns \<open>Invalid\<close>, in strict mode or not, and the violations it carries hold an entry
  for every offending field, naming the field and what was expected of it; there are at
  least as many violations as offending fields.
\<close>

theorem validate_reports_every_offending_field:
  assumes "\<exists>f \<in> set def. missing_required rec f \<or> type_mismatch rec f"
  shows "\<exists>vs. validate def strictMode rec = Invalid vs
           \<and> (\<forall>f \<in> set def.
                 (missing_required rec f \<longrightarrow>
                    (\<exists>v \<in> set vs. fieldPath v = fieldName f
                                  \<and> expected v = ExpectedPresence PresenceRequired))
                 \<and> (type_mismatch rec f \<longrightarrow>
                    (\<exists>v \<in> set vs. fieldPath v = fieldName f
                                  \<and> expected v = ExpectedType (fieldType f))))
           \<and> length (filter (\<lambda>f. missing_required rec f \<or> type_mismatch rec f) def) \<le> length vs"
proof -
  let ?vs = "concat (map (check_field rec) def) @ (if strictMode then unrecognized def rec else [])"
  from assms obtain f where f: "f \<in> set def" "missing_required rec f \<or> type_mismatch rec f"
    by blast
  then have "check_field rec f \<noteq> []"
    using check_field_offending[of rec f] by auto
  with f(1) have ne: "?vs \<noteq> []" by auto
  then have v: "validate def strictMode rec = Invalid ?vs"
    by (simp add: validate_def Let_def)
  have m: "\<exists>v \<in> set ?vs. fieldPath v = fieldName g \<and> expected v = ExpectedPresence PresenceRequired"
    if "g \<in> set def" "missing_required rec g" for g
  proof -
    have "\<lparr> fieldPath = fieldName g, expected = ExpectedPresence PresenceRequired,
             actualDescription = ''missing'' \<rparr> \<in> set ?vs"
      using that check_field_missing[of rec g] by force
    then show ?thesis by force
  qed
  have t: "\<exists>v \<in> set ?vs. fieldPath v = fieldName g \<and> expected v = ExpectedType (fieldType g)"
    if "g \<in> set def" "type_mismatch rec g" for g
  proof -
    from that(2) obtain d where "check_field rec g =
        [\<lparr> fieldPath = fieldName g, expected = ExpectedType (fieldType g), actualDescription = d \<rparr>]"
      using check_field_mismatch by blast
    then have "\<lparr> fieldPath = fieldName g, expected = ExpectedType (fieldType g),
                  actualDescription = d \<rparr> \<in> set ?vs"
      using that(1) by force
    then show ?thesis by force
  qed
  have c: "length (filter (\<lambda>f. missing_required rec f \<or> type_mismatch rec f) def) \<le> length ?vs"
    using offending_count[of rec "def"] by simp
  from v m t c show ?thesis by blast
qed

text \<open>
  The record \<open>{status: CANCELLED}\<close> against the schema of the specification's example:
  the run id is missing, the status is no member of the enumeration, and both are
  reported.
\<close>

theorem validate_reports_every_offending_field_witness:
  "missing_required [(''status'', JString ''CANCELLED'')] (wru_schema ! 0)
   \<and> type_mismatch [(''status'', JString ''CANCELLED'')] (wru_schema ! 1)
   \<and> (\<exists>vs. validate wru_schema False [(''status'', JString ''CANCELLED'')] = Invalid vs
            \<and> 2 \<le> length vs)"
proof -
  let ?rec = "[(''status'', JString ''CANCELLED'')]"
  have a: "missing_required ?rec (wru_schema ! 0)"
    by (simp add: wru_schema_def missing_required_def)
  have b: "type_mismatch ?rec (wru_schema ! 1)"
    by (simp add: wru_schema_def type_mismatch_def)
  have n: "length (filter (\<lambda>f. missing_required ?rec f \<or> type_mismatch ?rec f) wru_schema) = 2"
    by (simp add: wru_schema_def missing_required_def type_mismatch_def)
  have h: "\<exists>f \<in> set wru_schema. missing_required ?rec f \<or> type_mismatch ?rec f"
    using a by (auto simp add: wru_schema_def)
  from validate_reports_every_offending_field[OF h, of False] n
  have "\<exists>vs. validate wru_schema False ?rec = Invalid vs \<and> 2 \<le> length vs"
    by auto
  with a b show ?thesis by blast
qed

subsection \<open>One record\<close>

lemma resolve_busCalls: "busCalls (snd (resolve deps ident s)) = busCalls s"
  by (simp add: resolve_def split: option.splits registry_reply.splits prod.splits)

lemma report_busCalls: "busCalls (report deps ident rec vs s) = busCalls s"
  by (simp add: report_def Let_def)

lemma handle_record_invalid:
  assumes "fst (resolve deps (schemaIdentifier cfg) s) = Inr d"
    and "validate d (strict cfg) (payload r) = Invalid vs"
  shows "status (fst (handle_record deps cfg now r s)) = Rejected"
    and "busCalls (snd (handle_record deps cfg now r s)) = busCalls s"
proof -
  obtain s1 where r: "resolve deps (schemaIdentifier cfg) s = (Inr d, s1)"
    using assms(1) by (cases "resolve deps (schemaIdentifier cfg) s") simp
  have b: "busCalls s1 = busCalls s"
    using resolve_busCalls[of deps "schemaIdentifier cfg" s] r by simp
  show "status (fst (handle_record deps cfg now r s)) = Rejected"
    by (simp add: handle_record_def r assms(2) outcome_def)
  show "busCalls (snd (handle_record deps cfg now r s)) = busCalls s"
    by (simp add: handle_record_def r assms(2) report_busCalls b)
qed

lemma handle_record_unavailable:
  assumes "fst (resolve deps (schemaIdentifier cfg) s) = Inl RegistryUnavailable"
  shows "status (fst (handle_record deps cfg now r s)) = TransientFailure"
proof -
  obtain s1 where r: "resolve deps (schemaIdentifier cfg) s = (Inl RegistryUnavailable, s1)"
    using assms by (cases "resolve deps (schemaIdentifier cfg) s") simp
  show ?thesis
    by (simp add: handle_record_def r outcome_def)
qed

subsection \<open>A batch\<close>

lemma handler_Cons_fst:
  "fst (lambda_handler deps cfg now (r # rs) s) =
     fst (handle_record deps cfg now r s)
       # fst (lambda_handler deps cfg now rs (snd (handle_record deps cfg now r s)))"
  by (simp add: Let_def case_prod_beta)

lemma handler_Cons_snd:
  "snd (lambda_handler deps cfg now (r # rs) s) =
     snd (lambda_handler deps cfg now rs (snd (handle_record deps cfg now r s)))"
  by (simp add: Let_def case_prod_beta)

lemma handler_length: "length (fst (lambda_handler deps cfg now rs s)) = length rs"
  by (induction rs arbitrary: s) (simp_all add: handler_Cons_fst del: lambda_handler.simps(2))

text \<open>
  The outcome of the record at position \<open>i\<close> is that of handling it from the state
  that the records before it have left, and the state after it is the state so reached.
\<close>

lemma handler_nth:
  "i < length rs \<Longrightarrow>
     fst (lambda_handler deps cfg now rs s) ! i =
       fst (handle_record deps cfg now (rs ! i) (snd (lambda_handler deps cfg now (take i rs) s)))"
proof (induction rs arbitrary: s i)
  case Nil
  then show ?case by simp
next
  case (Cons r rs)
  show ?case
  proof (cases i)
    case 0
    then show ?thesis
      by (simp add: handler_Cons_fst handler_Cons_snd del: lambda_handler.simps(2))
  next
    case (Suc j)
    with Cons.prems have "j < length rs" by simp
    from Cons.IH[OF this] Suc show ?thesis
      by (simp add: handler_Cons_fst handler_Cons_snd del: lambda_handler.simps(2))
  qed
qed

lemma handler_take_Suc:
  "i < length rs \<Longrightarrow>
     snd (lambda_handler deps cfg now (take (Suc i) rs) s) =
       snd (handle_record deps cfg now (rs ! i) (snd (lambda_handler deps cfg now (take i rs) s)))"
proof (induction rs arbitrary: s i)
  case Nil
  then show ?case by simp
next
  case (Cons r rs)
  show ?case
  proof (cases i)
    case 0
    then show ?thesis
      by (simp add: handler_Cons_fst handler_Cons_snd del: lambda_handler.simps(2))
  next
    case (Suc j)
    with Cons.prems have "j < length rs" by simp
    from Cons.IH[OF this] Suc show ?thesis
      by (simp add: handler_Cons_fst handler_Cons_snd del: lambda_handler.simps(2))
  qed
qed

lemma example_after_first:
  "snd (lambda_handler deps_up example_cfg 0 (take 1 example_batch) example_state) =
     \<lparr> cache = Some (schemaIdentifier example_cfg, wru_schema),
       busCalls = [(''OrcaBusMain'',
          \<lparr> source = ''wru-validator'', detailType = ''orcabus.workflowmanager@WorkflowRunUpdate'',
            detail = [(''workflowRunId'', JString ''wru.123''), (''status'', JString ''RUNNING'')],
            timestamp = 0 \<rparr>)],
       diagnostics = [] \<rparr>"
  by (simp add: example_batch_def good_record_def handle_record_def resolve_def example_state_def
        deps_up_def validate_def check_field_def wru_schema_def canonical_def List.map_filter_def
        emit_def example_cfg_def relaySource_def Let_def)

text \<open>
  C1: a record on which validation fails is never forwarded to the bus. When the
  record at position \<open>i\<close> of a batch is resolved to a definition and fails validation
  against it, its outcome is \<open>Rejected\<close> and handling it adds no publish call: the calls
  made against the bus after the record are the calls made before it.
\<close>

theorem rejected_record_never_published:
  assumes "i < length rs"
    and "fst (resolve deps (schemaIdentifier cfg) (snd (lambda_handler deps cfg now (take i rs) s))) = Inr d"
    and "validate d (strict cfg) (payload (rs ! i)) = Invalid vs"
  shows "status (fst (lambda_handler deps cfg now rs s) ! i) = Rejected
         \<and> busCalls (snd (lambda_handler deps cfg now (take (Suc i) rs) s)) =
             busCalls (snd (lambda_handler deps cfg now (take i rs) s))"
  using handle_record_invalid[OF assms(2,3)] assms(1)
  by (simp add: handler_nth handler_take_Suc)

text \<open>
  A batch of three records whose second one fails validation, with both dependencies
  up: the second record is rejected and the bus sees no call for it.
\<close>

theorem rejected_record_never_published_witness:
  "(1::nat) < length example_batch
   \<and> fst (resolve deps_up (schemaIdentifier example_cfg)
           (snd (lambda_handler deps_up example_cfg 0 (take 1 example_batch) example_state))) =
       Inr wru_schema
   \<and> validate wru_schema (strict example_cfg) (payload (example_batch ! 1)) =
       Invalid [\<lparr> fieldPath = ''workflowRunId'', expected = ExpectedPresence PresenceRequired,
                   actualDescription = ''missing'' \<rparr>,
                \<lparr> fieldPath = ''status'',
                   expected = ExpectedType (TEnum [JString ''DRAFT'', JString ''QUEUED'',
                      JString ''RUNNING'', JString ''SUCCEEDED'', JString ''FAILED'']),
                   actualDescription = ''string'' \<rparr>]
   \<and> status (fst (lambda_handler deps_up example_cfg 0 example_batch example_state) ! 1) = Rejected
   \<and> busCalls (snd (lambda_handler deps_up example_cfg 0 (take (Suc 1) example_batch) example_state)) =
       busCalls (snd (lambda_handler deps_up example_cfg 0 (take 1 example_batch) example_state))"
proof -
  let ?s1 = "snd (lambda_handler deps_up example_cfg 0 (take 1 example_batch) example_state)"
  let ?vs = "[\<lparr> fieldPath = ''workflowRunId'', expected = ExpectedPresence PresenceRequired,
                 actualDescription = ''missing'' \<rparr>,
              \<lparr> fieldPath = ''status'',
                 expected = ExpectedType (TEnum [JString ''DRAFT'', JString ''QUEUED'',
                    JString ''RUNNING'', JString ''SUCCEEDED'', JString ''FAILED'']),
                 actualDescription = ''string'' \<rparr>]"
  have i: "(1::nat) < length example_batch"
    by (simp add: example_batch_def)
  have r: "fst (resolve deps_up (schemaIdentifier example_cfg) ?s1) = Inr wru_schema"
    using example_after_first by (simp add: resolve_def)
  have v: "validate wru_schema (strict example_cfg) (payload (example_batch ! 1)) = Invalid ?vs"
    by (simp add: example_batch_def bad_record_def validate_def check_field_def wru_schema_def
          example_cfg_def Let_def)
  from rejected_record_never_published[OF i r v] i r v show ?thesis
    by blast
qed

text \<open>
  C3: a record whose schema resolution fails because the registry is unavailable gets
  the outcome \<open>TransientFailure\<close>, never \<open>Rejected\<close>, at any position of a batch.
\<close>

theorem registry_unavailable_is_transient:
  assumes "i < length rs"
    and "fst (resolve deps (schemaIdentifier cfg) (snd (lambda_handler deps cfg now (take i rs) s))) =
           Inl RegistryUnavailable"
  shows "status (fst (lambda_handler deps cfg now rs s) ! i) = TransientFailure
         \<and> status (fst (lambda_handler deps cfg now rs s) ! i) \<noteq> Rejected"
  using handle_record_unavailable[OF assms(2)] assms(1)
  by (simp add: handler_nth)

text \<open>
  The same batch with the registry unreachable and nothing cached: the resolution of the
  second record fails as unavailable and its outcome is \<open>TransientFailure\<close>.
\<close>

theorem registry_unavailable_is_transient_witness:
  "(1::nat) < length example_batch
   \<and> fst (resolve deps_down (schemaIdentifier example_cfg)
           (snd (lambda_handler deps_down example_cfg 0 (take 1 example_batch) example_state))) =
       Inl RegistryUnavailable
   \<and> status (fst (lambda_handler deps_down example_cfg 0 example_batch example_state) ! 1) = TransientFailure"
proof -
  have i: "(1::nat) < length example_batch"
    by (simp add: example_batch_def)
  have s: "snd (lambda_handler deps_down example_cfg 0 (take 1 example_batch) example_state) = example_state"
    by (simp add: example_batch_def handle_record_def resolve_def example_state_def deps_down_def)
  have r: "fst (resolve deps_down (schemaIdentifier example_cfg)
           (snd (lambda_handler deps_down example_cfg 0 (take 1 example_batch) example_state))) =
       Inl RegistryUnavailable"
    using s by (simp add: resolve_def example_state_def deps_down_def)
  from registry_unavailable_is_transient[OF i r] i r show ?thesis
    by blast
qed

end
